theory Spec2Isabelle
  imports Main "HOL-Library.AList"
begin

section \<open>Errors and text\<close>

text \<open>
  The server of \<^verbatim>\<open>src/index.ts\<close> keeps four module-level maps (connections, connection
  contexts, credentials, shell sessions) and answers tool calls through one handler per
  tool. A handler either returns a text or throws. Two kinds of exception occur: the
  SDK's \<^verbatim>\<open>McpError(code, message)\<close> and plain JavaScript \<^verbatim>\<open>Error\<close>s raised by the
  collaborators (file system, SSH library). A handler is modelled as a function from the
  state to a result and the state it leaves behind; the result is \<open>Inl\<close> of the exception
  thrown or \<open>Inr\<close> of the text returned.
\<close>

datatype ErrorCode = MethodNotFound | InvalidParams | InternalError

datatype error = McpError ErrorCode string | Error string

text \<open>
  \<^verbatim>\<open>error.message\<close>. The SDK's \<^verbatim>\<open>McpError\<close> constructor passes
  \<^verbatim>\<open>`MCP error ${code}: ${message}`\<close> to \<^verbatim>\<open>Error\<close>, with the JSON-RPC numbers as codes.
\<close>

fun code_number :: "ErrorCode \<Rightarrow> string" where
  "code_number MethodNotFound = ''-32601''"
| "code_number InvalidParams = ''-32602''"
| "code_number InternalError = ''-32603''"

fun message :: "error \<Rightarrow> string" where
  "message (McpError c m) = ''MCP error '' @ code_number c @ '': '' @ m"
| "message (Error m) = m"

text \<open>A template piece \<^verbatim>\<open>'${s}'\<close>: the text between two apostrophes.\<close>

definition quoted :: "string \<Rightarrow> string" where
  "quoted s = [CHR 0x27] @ s @ [CHR 0x27]"

definition newline :: string where
  "newline = [CHR 0x0A]"

text \<open>\<^verbatim>\<open>Array.prototype.join\<close>.\<close>

fun join :: "string \<Rightarrow> string list \<Rightarrow> string" where
  "join sep [] = []"
| "join sep [x] = x"
| "join sep (x # y # ys) = x @ sep @ join sep (y # ys)"

text \<open>
  Numbers in templates. The numeric parameters (ports, columns, rows) are modelled as
  integers. \<open>show_int\<close> prints in decimal, which is what JavaScript prints for an
  integral number of magnitude below \<open>10^21\<close>; numbers that are not integral, and the
  exponent form that JavaScript prints from \<open>10^21\<close> on, are outside the model.
\<close>

definition digit :: "nat \<Rightarrow> char" where
  "digit d = ''0123456789'' ! d"

function show_nat :: "nat \<Rightarrow> string" where
  "show_nat n = (if n < 10 then [digit n] else show_nat (n div 10) @ [digit (n mod 10)])"
  by pat_completeness auto
termination
  by (relation "measure (\<lambda>n. n)") auto

declare show_nat.simps [simp del]

definition show_int :: "int \<Rightarrow> string" where
  "show_int i = (if i < 0 then ''-'' @ show_nat (nat (- i)) else show_nat (nat i))"

text \<open>
  JavaScript truthiness of an optional string: \<^verbatim>\<open>undefined\<close> and the empty string are
  falsy. The handlers test their optional parameters this way (\<^verbatim>\<open>if (params.password)\<close>,
  \<^verbatim>\<open>!!cred.password\<close>).
\<close>

definition truthy :: "string option \<Rightarrow> bool" where
  "truthy v = (case v of None \<Rightarrow> False | Some s \<Rightarrow> s \<noteq> [])"

section \<open>Data model\<close>

text \<open>The object handed to \<^verbatim>\<open>ssh.connect\<close>.\<close>

record ConnectConfig =
  cfg_host :: string
  cfg_port :: int
  cfg_username :: string
  cfg_privateKey :: "string option"
  cfg_passphrase :: "string option"
  cfg_password :: "string option"

text \<open>A connected \<^verbatim>\<open>NodeSSH\<close> handle, known by the configuration it was connected with.\<close>

record NodeSSH =
  ssh_config :: ConnectConfig

record ConnectionContext =
  ctx_ssh :: NodeSSH
  currentWorkingDirectory :: "string option"
  defaultWorkingDirectory :: "string option"

record StoredCredential =
  host :: string
  port :: int
  username :: string
  password :: "string option"
  privateKeyPath :: "string option"
  passphrase :: "string option"
  createdAt :: string
  lastUsed :: string

text \<open>
  The SSH channel of a shell session, as a recording double: every \<^verbatim>\<open>write\<close> call is
  logged with its argument, in order, and \<^verbatim>\<open>close()\<close> is remembered.
\<close>

record Channel =
  written :: "string list"
  closeRequested :: bool

text \<open>
  A shell session object. The handlers and the event hooks of the channel share the
  object by reference (the hooks close over it and keep it after the map entry is gone),
  so session objects live in a store and the map \<^verbatim>\<open>shellSessions\<close> holds addresses.
  \<open>emitter\<close> is the list of \<^verbatim>\<open>once('data')\<close> listeners of the session's
  \<^verbatim>\<open>EventEmitter\<close>, each the pending read that registered it; the source registers no
  listener for any other event of that emitter.
\<close>

type_synonym addr = nat

record ShellSession =
  shell :: Channel
  ssh :: NodeSSH
  emitter :: "nat list"
  buffer :: string
  isActive :: bool

text \<open>
  A call of \<^verbatim>\<open>handleReadOutput\<close> suspended at its \<^verbatim>\<open>await\<close>: the variables its closures
  hold, whether its timer is armed and the time at which it is due, and the promise
  (\<open>None\<close> while pending, \<open>Some v\<close> once resolved with \<open>v\<close>).
\<close>

record ReadTask =
  t_session :: addr
  t_sessionId :: string
  t_timeout :: int
  t_clearBuffer :: bool
  t_timer :: bool
  t_due :: int
  t_promise :: "string option"

text \<open>
  The module state. \<^verbatim>\<open>credentialStore\<close> is an association list in insertion order,
  the order in which a JavaScript \<^verbatim>\<open>Map\<close> is listed. \<open>clock\<close> is the time of the
  event loop in milliseconds.
\<close>

record state =
  connectionPool :: "string \<rightharpoonup> NodeSSH"
  connectionContexts :: "string \<rightharpoonup> ConnectionContext"
  credentialStore :: "(string \<times> StoredCredential) list"
  shellSessions :: "string \<rightharpoonup> addr"
  heap :: "addr \<Rightarrow> ShellSession"
  nextAddr :: addr
  tasks :: "nat \<rightharpoonup> ReadTask"
  nextTask :: nat
  clock :: int

text \<open>
  What the collaborators answer. Each function gives the outcome of one external call:
  for \<^verbatim>\<open>fs.readFile\<close> the message of the error thrown or the file's text, for the others
  \<open>Some m\<close> when the call throws an \<^verbatim>\<open>Error\<close> with message \<open>m\<close> and \<open>None\<close> when it
  returns. \<open>date_now\<close> is \<^verbatim>\<open>new Date().toISOString()\<close>.
\<close>

record env =
  fs_readFile :: "string \<Rightarrow> string + string"
  ssh_connect :: "ConnectConfig \<Rightarrow> string option"
  ssh_dispose :: "NodeSSH \<Rightarrow> string option"
  ssh_requestShell :: "NodeSSH \<Rightarrow> int \<Rightarrow> int \<Rightarrow> string option"
  shell_write :: "Channel \<Rightarrow> string \<Rightarrow> string option"
  shell_close :: "Channel \<Rightarrow> string option"
  date_now :: string

text \<open>The parsed parameters of the tools with many fields (defaults already applied).\<close>

record ConnectSSH =
  c_host :: string
  c_port :: int
  c_username :: string
  c_password :: "string option"
  c_privateKeyPath :: "string option"
  c_passphrase :: "string option"
  c_connectionId :: string

record SaveCredential =
  s_credentialId :: string
  s_host :: string
  s_port :: int
  s_username :: string
  s_password :: "string option"
  s_privateKeyPath :: "string option"
  s_passphrase :: "string option"

record StartInteractiveShell =
  i_connectionId :: string
  i_sessionId :: string
  i_shell :: string
  i_cols :: int
  i_rows :: int

section \<open>Connections\<close>

text \<open>
  The body of the \<^verbatim>\<open>try\<close> block up to \<^verbatim>\<open>ssh.connect\<close>, which \<^verbatim>\<open>handleSSHConnect\<close> and
  \<^verbatim>\<open>handleConnectWithCredential\<close> both contain: the private key is tried first, then the
  password, and with neither an \<^verbatim>\<open>McpError\<close> is thrown inside the \<^verbatim>\<open>try\<close>. The two
  handlers differ in the text of that error only.
\<close>

definition connectConfig ::
  "env \<Rightarrow> string \<Rightarrow> int \<Rightarrow> string \<Rightarrow> string option \<Rightarrow> string option \<Rightarrow> string option \<Rightarrow> string
     \<Rightarrow> error + ConnectConfig" where
  "connectConfig E h p u keyPath phrase pw missing =
     (case (if truthy keyPath then keyPath else None) of
        Some path \<Rightarrow>
          (case fs_readFile E path of
             Inl m \<Rightarrow> Inl (Error m)
           | Inr privateKey \<Rightarrow>
               Inr \<lparr>cfg_host = h, cfg_port = p, cfg_username = u,
                    cfg_privateKey = Some privateKey,
                    cfg_passphrase = (if truthy phrase then phrase else None),
                    cfg_password = None\<rparr>)
      | None \<Rightarrow>
          (if truthy pw then
             Inr \<lparr>cfg_host = h, cfg_port = p, cfg_username = u,
                  cfg_privateKey = None, cfg_passphrase = None, cfg_password = pw\<rparr>
           else Inl (McpError InvalidParams missing)))"

text \<open>
  \<^verbatim>\<open>handleSSHConnect\<close>. The \<^verbatim>\<open>catch\<close> of the handler wraps whatever the \<^verbatim>\<open>try\<close> block
  throws, the \<^verbatim>\<open>McpError\<close> for missing authentication included, into an
  \<^verbatim>\<open>InternalError\<close>. The handler is taken as one step: the calls it awaits answer at
  once, so nothing else runs between its check and its insert.
\<close>

definition handleSSHConnect :: "env \<Rightarrow> ConnectSSH \<Rightarrow> state \<Rightarrow> (error + string) \<times> state" where
  "handleSSHConnect E params st =
     (if connectionPool st (c_connectionId params) \<noteq> None then
        (Inl (McpError InvalidParams
               (''Connection ID '' @ quoted (c_connectionId params) @ '' already exists'')), st)
      else
        (case connectConfig E (c_host params) (c_port params) (c_username params)
                (c_privateKeyPath params) (c_passphrase params) (c_password params)
                ''Either password or privateKeyPath must be provided'' of
           Inl e \<Rightarrow>
             (Inl (McpError InternalError (''SSH connection failed: '' @ message e)), st)
         | Inr cfg \<Rightarrow>
             (case ssh_connect E cfg of
                Some m \<Rightarrow> (Inl (McpError InternalError (''SSH connection failed: '' @ m)), st)
              | None \<Rightarrow>
                  (Inr (''Successfully connected to '' @ c_host params @ '':''
                          @ show_int (c_port params) @ '' as '' @ c_username params
                          @ '' (Connection ID: '' @ c_connectionId params @ '')''),
                   st\<lparr>connectionPool :=
                        (connectionPool st)(c_connectionId params \<mapsto> \<lparr>ssh_config = cfg\<rparr>),
                      connectionContexts :=
                        (connectionContexts st)(c_connectionId params \<mapsto>
                           \<lparr>ctx_ssh = \<lparr>ssh_config = cfg\<rparr>,
                            currentWorkingDirectory = None,
                            defaultWorkingDirectory = None\<rparr>)\<rparr>))))"

text \<open>
  \<^verbatim>\<open>handleSSHDisconnect\<close>: \<^verbatim>\<open>ssh.dispose()\<close> is called outside any \<^verbatim>\<open>try\<close>, before the
  two \<^verbatim>\<open>delete\<close>s.
\<close>

definition handleSSHDisconnect :: "env \<Rightarrow> string \<Rightarrow> state \<Rightarrow> (error + string) \<times> state" where
  "handleSSHDisconnect E connectionId st =
     (case connectionPool st connectionId of
        None \<Rightarrow>
          (Inl (McpError InvalidParams
                 (''Connection ID '' @ quoted connectionId @ '' not found'')), st)
      | Some handle \<Rightarrow>
          (case ssh_dispose E handle of
             Some m \<Rightarrow> (Inl (Error m), st)
           | None \<Rightarrow>
               (Inr (''Disconnected from '' @ connectionId),
                st\<lparr>connectionPool := (connectionPool st)(connectionId := None),
                   connectionContexts := (connectionContexts st)(connectionId := None)\<rparr>)))"

text \<open>
  The \<^verbatim>\<open>catch\<close> of the request handler that dispatches the tool calls: an \<^verbatim>\<open>McpError\<close>
  passes, anything else is wrapped.
\<close>

definition callToolCatch :: "(error + string) \<times> state \<Rightarrow> (error + string) \<times> state" where
  "callToolCatch r =
     (case r of
        (Inl (Error m), st) \<Rightarrow>
          (Inl (McpError InternalError (''Tool execution failed: '' @ m)), st)
      | _ \<Rightarrow> r)"

section \<open>Credentials\<close>

text \<open>\<^verbatim>\<open>handleSaveCredential\<close>. \<^verbatim>\<open>params.port || 22\<close> replaces a zero port by 22.\<close>

definition handleSaveCredential :: "env \<Rightarrow> SaveCredential \<Rightarrow> state \<Rightarrow> (error + string) \<times> state" where
  "handleSaveCredential E params st =
     (if map_of (credentialStore st) (s_credentialId params) \<noteq> None then
        (Inl (McpError InvalidParams
               (''Credential ID '' @ quoted (s_credentialId params) @ '' already exists'')), st)
      else if \<not> truthy (s_password params) \<and> \<not> truthy (s_privateKeyPath params) then
        (Inl (McpError InvalidParams ''Either password or privateKeyPath must be provided''), st)
      else
        (Inr (''Credential '' @ quoted (s_credentialId params) @ '' saved successfully for ''
                @ s_username params @ ''@'' @ s_host params @ '':''
                @ show_int (if s_port params = 0 then 22 else s_port params)),
         st\<lparr>credentialStore :=
              AList.update (s_credentialId params)
                \<lparr>host = s_host params,
                 port = (if s_port params = 0 then 22 else s_port params),
                 username = s_username params,
                 password = s_password params,
                 privateKeyPath = s_privateKeyPath params,
                 passphrase = s_passphrase params,
                 createdAt = date_now E,
                 lastUsed = date_now E\<rparr>
                (credentialStore st)\<rparr>))"

text \<open>
  \<^verbatim>\<open>handleListCredentials\<close>. The entries are first mapped to objects that carry the two
  flags in place of the secrets; the text returned is built from those objects.
\<close>

record ListedCredential =
  l_credentialId :: string
  l_host :: string
  l_port :: int
  l_username :: string
  hasPassword :: bool
  hasPrivateKey :: bool
  l_createdAt :: string
  l_lastUsed :: string

definition listed :: "string \<times> StoredCredential \<Rightarrow> ListedCredential" where
  "listed e =
     (case e of (credId, cred) \<Rightarrow>
        \<lparr>l_credentialId = credId, l_host = host cred, l_port = port cred,
         l_username = username cred,
         hasPassword = truthy (password cred),
         hasPrivateKey = truthy (privateKeyPath cred),
         l_createdAt = createdAt cred, l_lastUsed = lastUsed cred\<rparr>)"

definition credentialLine :: "ListedCredential \<Rightarrow> string" where
  "credentialLine c =
     ''- '' @ l_credentialId c @ '': '' @ l_username c @ ''@'' @ l_host c @ '':''
       @ show_int (l_port c) @ '' ('' @ (if hasPassword c then ''password'' else ''key'')
       @ '') - Last used: '' @ l_lastUsed c"

definition handleListCredentials :: "state \<Rightarrow> (error + string) \<times> state" where
  "handleListCredentials st =
     (let credentials = map listed (credentialStore st) in
      (Inr (if length credentials > 0
            then ''Saved credentials:'' @ newline @ join newline (map credentialLine credentials)
            else ''No saved credentials found''), st))"

text \<open>\<^verbatim>\<open>handleDeleteCredential\<close>.\<close>

definition handleDeleteCredential :: "string \<Rightarrow> state \<Rightarrow> (error + string) \<times> state" where
  "handleDeleteCredential credentialId st =
     (case map_of (credentialStore st) credentialId of
        None \<Rightarrow>
          (Inl (McpError InvalidParams
                 (''Credential ID '' @ quoted credentialId @ '' not found'')), st)
      | Some credential \<Rightarrow>
          (Inr (''Credential '' @ quoted credentialId @ '' ('' @ username credential @ ''@''
                  @ host credential @ '') deleted successfully''),
           st\<lparr>credentialStore := AList.delete credentialId (credentialStore st)\<rparr>))"

text \<open>
  \<^verbatim>\<open>handleConnectWithCredential\<close>: the connection id is checked before the credential is
  looked up; the rest is the connect of \<^verbatim>\<open>handleSSHConnect\<close> on the stored fields,
  followed by the update of \<^verbatim>\<open>lastUsed\<close>.
\<close>

definition handleConnectWithCredential ::
  "env \<Rightarrow> string \<Rightarrow> string \<Rightarrow> state \<Rightarrow> (error + string) \<times> state" where
  "handleConnectWithCredential E credentialId connectionId st =
     (if connectionPool st connectionId \<noteq> None then
        (Inl (McpError InvalidParams
               (''Connection ID '' @ quoted connectionId @ '' already exists'')), st)
      else
        (case map_of (credentialStore st) credentialId of
           None \<Rightarrow>
             (Inl (McpError InvalidParams
                    (''Credential ID '' @ quoted credentialId @ '' not found'')), st)
         | Some credential \<Rightarrow>
             (case connectConfig E (host credential) (port credential) (username credential)
                     (privateKeyPath credential) (passphrase credential) (password credential)
                     ''Credential has neither password nor private key'' of
                Inl e \<Rightarrow>
                  (Inl (McpError InternalError (''SSH connection failed: '' @ message e)), st)
              | Inr cfg \<Rightarrow>
                  (case ssh_connect E cfg of
                     Some m \<Rightarrow>
                       (Inl (McpError InternalError (''SSH connection failed: '' @ m)), st)
                   | None \<Rightarrow>
                       (Inr (''Successfully connected to '' @ host credential @ '':''
                               @ show_int (port credential) @ '' as '' @ username credential
                               @ '' using saved credential '' @ quoted credentialId
                               @ '' (Connection ID: '' @ connectionId @ '')''),
                        st\<lparr>connectionPool :=
                             (connectionPool st)(connectionId \<mapsto> \<lparr>ssh_config = cfg\<rparr>),
                           connectionContexts :=
                             (connectionContexts st)(connectionId \<mapsto>
                                \<lparr>ctx_ssh = \<lparr>ssh_config = cfg\<rparr>,
                                 currentWorkingDirectory = None,
                                 defaultWorkingDirectory = None\<rparr>),
                           credentialStore :=
                             AList.update credentialId (credential\<lparr>lastUsed := date_now E\<rparr>)
                               (credentialStore st)\<rparr>)))))"

section \<open>Interactive shell sessions\<close>

text \<open>
  \<^verbatim>\<open>handleStartInteractiveShell\<close>: the connection is looked up first, then the session id
  is checked. On success a new session object is allocated with an empty buffer, active,
  and with no listener on its emitter; the two hooks registered on the channel are
  \<open>shell_on_data\<close> and \<open>shell_on_close\<close> below. Like the connect, the handler is taken as
  one step.
\<close>

definition handleStartInteractiveShell ::
  "env \<Rightarrow> StartInteractiveShell \<Rightarrow> state \<Rightarrow> (error + string) \<times> state" where
  "handleStartInteractiveShell E params st =
     (case connectionPool st (i_connectionId params) of
        None \<Rightarrow>
          (Inl (McpError InvalidParams
                 (''Connection ID '' @ quoted (i_connectionId params) @ '' not found'')), st)
      | Some handle \<Rightarrow>
          (if shellSessions st (i_sessionId params) \<noteq> None then
             (Inl (McpError InvalidParams
                    (''Session ID '' @ quoted (i_sessionId params) @ '' already exists'')), st)
           else
             (case ssh_requestShell E handle (i_cols params) (i_rows params) of
                Some m \<Rightarrow>
                  (Inl (McpError InternalError
                         (''Failed to start interactive shell: '' @ m)), st)
              | None \<Rightarrow>
                  (Inr (''Interactive shell session '' @ quoted (i_sessionId params)
                          @ '' started successfully'' @ newline @ ''Shell: '' @ i_shell params
                          @ newline @ ''Terminal: '' @ show_int (i_cols params) @ ''x''
                          @ show_int (i_rows params)),
                   st\<lparr>heap := (heap st)(nextAddr st :=
                          \<lparr>shell = \<lparr>written = [], closeRequested = False\<rparr>,
                           ssh = handle, emitter = [], buffer = [], isActive = True\<rparr>),
                      nextAddr := Suc (nextAddr st),
                      shellSessions := (shellSessions st)(i_sessionId params \<mapsto> nextAddr st)\<rparr>))))"

text \<open>
  \<^verbatim>\<open>resolve(v)\<close> on the promise of a read: the first call settles it, later calls do
  nothing.
\<close>

definition resolve :: "string \<Rightarrow> ReadTask \<Rightarrow> ReadTask" where
  "resolve v t = (case t_promise t of None \<Rightarrow> t\<lparr>t_promise := Some v\<rparr> | Some w \<Rightarrow> t)"

text \<open>
  The listener a suspended read registers with \<^verbatim>\<open>session.emitter.once('data', ...)\<close>:
  it clears the read's timer and resolves its promise with the session's buffer.
\<close>

definition dataListener :: "nat \<Rightarrow> state \<Rightarrow> state" where
  "dataListener r st =
     (case tasks st r of
        None \<Rightarrow> st
      | Some t \<Rightarrow>
          st\<lparr>tasks := (tasks st)(r \<mapsto> resolve (buffer (heap st (t_session t))) (t\<lparr>t_timer := False\<rparr>))\<rparr>)"

text \<open>
  The hook \<^verbatim>\<open>shell.on('data', ...)\<close> of the session object at address \<open>a\<close>: the text is
  appended to the buffer and \<^verbatim>\<open>'data'\<close> is emitted, which runs the \<^verbatim>\<open>once\<close> listeners in
  the order of their registration and removes them.
\<close>

definition shell_on_data :: "addr \<Rightarrow> string \<Rightarrow> state \<Rightarrow> state" where
  "shell_on_data a text st =
     (let session = heap st a in
      fold dataListener (emitter session)
        (st\<lparr>heap := (heap st)(a := session\<lparr>buffer := buffer session @ text, emitter := []\<rparr>)\<rparr>))"

text \<open>
  The hook \<^verbatim>\<open>shell.on('close', ...)\<close>: the flag is lowered and \<^verbatim>\<open>'close'\<close> is emitted on
  the session's emitter, where nothing listens for it.
\<close>

definition shell_on_close :: "addr \<Rightarrow> state \<Rightarrow> state" where
  "shell_on_close a st = st\<lparr>heap := (heap st)(a := (heap st a)\<lparr>isActive := False\<rparr>)\<rparr>"

text \<open>
  \<^verbatim>\<open>handleSendInput\<close>. With \<^verbatim>\<open>simulateTyping\<close> the input is written one character of the
  string iterator at a time, otherwise in one call. A \<^verbatim>\<open>write\<close> that throws ends the
  loop; what was written before stays written. (The pauses between the characters are
  left out: the handler is taken as one step.)
\<close>

fun writeChars :: "env \<Rightarrow> Channel \<Rightarrow> string \<Rightarrow> Channel \<times> string option" where
  "writeChars E ch [] = (ch, None)"
| "writeChars E ch (c # cs) =
     (case shell_write E ch [c] of
        Some m \<Rightarrow> (ch, Some m)
      | None \<Rightarrow> writeChars E (ch\<lparr>written := written ch @ [[c]]\<rparr>) cs)"

definition writeAll :: "env \<Rightarrow> Channel \<Rightarrow> string \<Rightarrow> Channel \<times> string option" where
  "writeAll E ch input =
     (case shell_write E ch input of
        Some m \<Rightarrow> (ch, Some m)
      | None \<Rightarrow> (ch\<lparr>written := written ch @ [input]\<rparr>, None))"

definition handleSendInput ::
  "env \<Rightarrow> string \<Rightarrow> string \<Rightarrow> bool \<Rightarrow> state \<Rightarrow> (error + string) \<times> state" where
  "handleSendInput E sessionId input simulateTyping st =
     (case shellSessions st sessionId of
        None \<Rightarrow>
          (Inl (McpError InvalidParams
                 (''Session ID '' @ quoted sessionId @ '' not found'')), st)
      | Some a \<Rightarrow>
          (if \<not> isActive (heap st a) then
             (Inl (McpError InvalidParams
                    (''Session '' @ quoted sessionId @ '' is not active'')), st)
           else
             (case (if simulateTyping then writeChars E (shell (heap st a)) input
                    else writeAll E (shell (heap st a)) input) of
                (ch, Some m) \<Rightarrow>
                  (Inl (McpError InternalError (''Failed to send input: '' @ m)),
                   st\<lparr>heap := (heap st)(a := (heap st a)\<lparr>shell := ch\<rparr>)\<rparr>)
              | (ch, None) \<Rightarrow>
                  (Inr (''Input sent to session '' @ quoted sessionId
                          @ (if simulateTyping then '' (with typing simulation)'' else [])
                          @ newline @ ''Input: '' @ input),
                   st\<lparr>heap := (heap st)(a := (heap st a)\<lparr>shell := ch\<rparr>)\<rparr>))))"

text \<open>
  \<^verbatim>\<open>handleReadOutput\<close> suspends at \<^verbatim>\<open>await new Promise(...)\<close>, so it is modelled in the
  pieces that run without interruption.

  \<open>handleReadOutput_start\<close> is the call up to the \<^verbatim>\<open>await\<close>: the lookup, and the
  executor of the promise. The executor arms the timer with \<^verbatim>\<open>setTimeout(..., params.timeout)\<close>;
  with a non-empty buffer it clears the timer again and resolves with the buffer,
  otherwise it registers the \<^verbatim>\<open>once('data')\<close> listener. The result is the number of the
  suspended read.

  \<open>timerDelay\<close> is the delay that \<^verbatim>\<open>setTimeout\<close> of Node.js schedules: the number of
  milliseconds asked for when that lies between 1 and \<open>2^31 - 1\<close>, and 1 otherwise.
\<close>

definition timerDelay :: "int \<Rightarrow> int" where
  "timerDelay ms = (if 1 \<le> ms \<and> ms \<le> 2147483647 then ms else 1)"

definition handleReadOutput_start ::
  "string \<Rightarrow> int \<Rightarrow> bool \<Rightarrow> state \<Rightarrow> (error + nat) \<times> state" where
  "handleReadOutput_start sessionId timeout clearBuffer st =
     (case shellSessions st sessionId of
        None \<Rightarrow>
          (Inl (McpError InvalidParams
                 (''Session ID '' @ quoted sessionId @ '' not found'')), st)
      | Some a \<Rightarrow>
          (if buffer (heap st a) \<noteq> [] then
             (Inr (nextTask st),
              st\<lparr>tasks := (tasks st)(nextTask st \<mapsto>
                     \<lparr>t_session = a, t_sessionId = sessionId, t_timeout = timeout,
                      t_clearBuffer = clearBuffer, t_timer = False,
                      t_due = clock st + timerDelay timeout,
                      t_promise = Some (buffer (heap st a))\<rparr>),
                 nextTask := Suc (nextTask st)\<rparr>)
           else
             (Inr (nextTask st),
              st\<lparr>tasks := (tasks st)(nextTask st \<mapsto>
                     \<lparr>t_session = a, t_sessionId = sessionId, t_timeout = timeout,
                      t_clearBuffer = clearBuffer, t_timer = True,
                      t_due = clock st + timerDelay timeout, t_promise = None\<rparr>),
                 heap := (heap st)(a := (heap st a)\<lparr>emitter := emitter (heap st a) @ [nextTask st]\<rparr>),
                 nextTask := Suc (nextTask st)\<rparr>)))"

text \<open>
  The callback of \<^verbatim>\<open>setTimeout\<close>: it runs only while the timer is armed and not before
  the timer is due, and resolves with the buffer as it is then.
\<close>

definition timerFires :: "nat \<Rightarrow> state \<Rightarrow> state" where
  "timerFires r st =
     (case tasks st r of
        None \<Rightarrow> st
      | Some t \<Rightarrow>
          (if t_timer t \<and> t_due t \<le> clock st then
             st\<lparr>tasks := (tasks st)(r \<mapsto> resolve (buffer (heap st (t_session t))) (t\<lparr>t_timer := False\<rparr>))\<rparr>
           else st))"

text \<open>
  \<open>handleReadOutput_resume\<close> is the rest of the handler, which runs once the promise is
  resolved, in a later turn of the event loop than the \<^verbatim>\<open>resolve\<close> call itself: the value
  the promise was resolved with is the result, and the buffer of the session object is
  emptied when \<^verbatim>\<open>clearBuffer\<close> is set. \<open>None\<close> means that the read has not returned:
  its promise is still pending. \<open>outputText\<close> is the template of the text returned,
  \<^verbatim>\<open>`Output from session '${params.sessionId}':\n${result}`\<close>.
\<close>

definition outputText :: "string \<Rightarrow> string \<Rightarrow> string" where
  "outputText sessionId result = ''Output from session '' @ quoted sessionId @ '':'' @ newline @ result"

definition handleReadOutput_resume :: "nat \<Rightarrow> state \<Rightarrow> ((error + string) \<times> state) option" where
  "handleReadOutput_resume r st =
     (case tasks st r of
        None \<Rightarrow> None
      | Some t \<Rightarrow>
          (case t_promise t of
             None \<Rightarrow> None
           | Some output \<Rightarrow>
               Some (Inr (outputText (t_sessionId t) output),
                     st\<lparr>heap := (if t_clearBuffer t
                                  then (heap st)(t_session t := (heap st (t_session t))\<lparr>buffer := []\<rparr>)
                                  else heap st),
                        tasks := (tasks st)(r := None)\<rparr>)))"

text \<open>
  What can happen while a read is suspended: data or the close of a channel, time that
  passes (a number of milliseconds), or the event loop running the timer callback of a
  read. \<open>run\<close> delivers a sequence of such events in order.
\<close>

datatype event = ShellData addr string | ShellClose addr | Elapse nat | TimerFires nat

fun deliver :: "event \<Rightarrow> state \<Rightarrow> state" where
  "deliver (ShellData a text) st = shell_on_data a text st"
| "deliver (ShellClose a) st = shell_on_close a st"
| "deliver (Elapse d) st = st\<lparr>clock := clock st + int d\<rparr>"
| "deliver (TimerFires r) st = timerFires r st"

definition run :: "event list \<Rightarrow> state \<Rightarrow> state" where
  "run evs st = fold deliver evs st"

text \<open>
  A whole call of \<^verbatim>\<open>handleReadOutput\<close>: \<open>evs\<close> are the events delivered between the
  call and the moment its continuation runs.
\<close>

definition handleReadOutput ::
  "string \<Rightarrow> int \<Rightarrow> bool \<Rightarrow> event list \<Rightarrow> state \<Rightarrow> ((error + string) \<times> state) option" where
  "handleReadOutput sessionId timeout clearBuffer evs st =
     (case handleReadOutput_start sessionId timeout clearBuffer st of
        (Inl e, st') \<Rightarrow> Some (Inl e, st')
      | (Inr r, st') \<Rightarrow> handleReadOutput_resume r (run evs st'))"

text \<open>
  \<^verbatim>\<open>handleCloseInteractiveShell\<close>: the flag is lowered on the session object and the
  entry is deleted, unless \<^verbatim>\<open>shell.close()\<close> throws.
\<close>

definition handleCloseInteractiveShell :: "env \<Rightarrow> string \<Rightarrow> state \<Rightarrow> (error + string) \<times> state" where
  "handleCloseInteractiveShell E sessionId st =
     (case shellSessions st sessionId of
        None \<Rightarrow>
          (Inl (McpError InvalidParams
                 (''Session ID '' @ quoted sessionId @ '' not found'')), st)
      | Some a \<Rightarrow>
          (case shell_close E (shell (heap st a)) of
             Some m \<Rightarrow> (Inl (McpError InternalError (''Failed to close session: '' @ m)), st)
           | None \<Rightarrow>
               (Inr (''Interactive shell session '' @ quoted sessionId @ '' closed successfully''),
                st\<lparr>heap := (heap st)(a := (heap st a)
                       \<lparr>shell := (shell (heap st a))\<lparr>closeRequested := True\<rparr>, isActive := False\<rparr>),
                   shellSessions := (shellSessions st)(sessionId := None)\<rparr>)))"

text \<open>The state at start-up: the maps are empty.\<close>

definition blankSession :: ShellSession where
  "blankSession =
     \<lparr>shell = \<lparr>written = [], closeRequested = False\<rparr>,
      ssh = \<lparr>ssh_config = \<lparr>cfg_host = [], cfg_port = 0, cfg_username = [],
                            cfg_privateKey = None, cfg_passphrase = None, cfg_password = None\<rparr>\<rparr>,
      emitter = [], buffer = [], isActive = False\<rparr>"

definition initial :: state where
  "initial =
     \<lparr>connectionPool = Map.empty, connectionContexts = Map.empty, credentialStore = [],
      shellSessions = Map.empty, heap = (\<lambda>a. blankSession), nextAddr = 0,
      tasks = Map.empty, nextTask = 0, clock = 0\<rparr>"

text \<open>Collaborators that never fail: every file reads as \<open>''KEY''\<close>.\<close>

definition quietEnv :: env where
  "quietEnv =
     \<lparr>fs_readFile = (\<lambda>p. Inr ''KEY''), ssh_connect = (\<lambda>c. None), ssh_dispose = (\<lambda>h. None),
      ssh_requestShell = (\<lambda>h c r. None), shell_write = (\<lambda>ch s. None),
      shell_close = (\<lambda>ch. None), date_now = ''2024-01-01T00:00:00.000Z''\<rparr>"

section \<open>Example states\<close>

text \<open>
  A run used to evaluate the handlers: connection \<open>''c''\<close> is opened with a password,
  credential \<open>''k''\<close> is saved and shell session \<open>''s''\<close> is started on \<open>''c''\<close>; its
  session object is at address \<open>0\<close>.
\<close>

definition demoConnect :: ConnectSSH where
  "demoConnect =
     \<lparr>c_host = ''h'', c_port = 22, c_username = ''u'', c_password = Some ''p'',
      c_privateKeyPath = None, c_passphrase = None, c_connectionId = ''c''\<rparr>"

definition demoSave :: SaveCredential where
  "demoSave =
     \<lparr>s_credentialId = ''k'', s_host = ''h'', s_port = 22, s_username = ''u'',
      s_password = Some ''p'', s_privateKeyPath = None, s_passphrase = None\<rparr>"

definition demoStart :: StartInteractiveShell where
  "demoStart =
     \<lparr>i_connectionId = ''c'', i_sessionId = ''s'', i_shell = ''/bin/bash'',
      i_cols = 80, i_rows = 24\<rparr>"

definition connected :: state where
  "connected = snd (handleSSHConnect quietEnv demoConnect initial)"

definition saved :: state where
  "saved = snd (handleSaveCredential quietEnv demoSave connected)"

definition started :: state where
  "started = snd (handleStartInteractiveShell quietEnv demoStart saved)"

text \<open>Collaborators whose \<^verbatim>\<open>dispose\<close>, respectively \<^verbatim>\<open>connect\<close>, throws.\<close>

definition failingDispose :: env where
  "failingDispose = quietEnv\<lparr>ssh_dispose := (\<lambda>h. Some ''dispose failed'')\<rparr>"

definition failingConnect :: env where
  "failingConnect = quietEnv\<lparr>ssh_connect := (\<lambda>c. Some ''ECONNREFUSED'')\<rparr>"

text \<open>Session \<open>''s''\<close> after its channel has delivered the text \<open>''bye''\<close>.\<close>

definition withOutput :: state where
  "withOutput = run [ShellData 0 ''bye''] started"

text \<open>
  Two credential stores that differ in the secrets only: the password of \<open>''k''\<close>, and
  the key path and the passphrase of \<open>''j''\<close>.
\<close>

definition storeA :: state where
  "storeA = initial\<lparr>credentialStore :=
     [(''k'', \<lparr>host = ''h'', port = 22, username = ''u'', password = Some ''hunter2'',
              privateKeyPath = None, passphrase = None,
              createdAt = ''2024-01-01T00:00:00.000Z'', lastUsed = ''2024-01-01T00:00:00.000Z''\<rparr>),
      (''j'', \<lparr>host = ''g'', port = 2222, username = ''v'', password = None,
              privateKeyPath = Some ''/home/v/.ssh/id_a'', passphrase = Some ''open sesame'',
              createdAt = ''2024-01-02T00:00:00.000Z'', lastUsed = ''2024-01-03T00:00:00.000Z''\<rparr>)]\<rparr>"

definition storeB :: state where
  "storeB = initial\<lparr>credentialStore :=
     [(''k'', \<lparr>host = ''h'', port = 22, username = ''u'', password = Some ''correct horse'',
              privateKeyPath = None, passphrase = None,
              createdAt = ''2024-01-01T00:00:00.000Z'', lastUsed = ''2024-01-01T00:00:00.000Z''\<rparr>),
      (''j'', \<lparr>host = ''g'', port = 2222, username = ''v'', password = None,
              privateKeyPath = Some ''/home/v/.ssh/id_b'', passphrase = None,
              createdAt = ''2024-01-02T00:00:00.000Z'', lastUsed = ''2024-01-03T00:00:00.000Z''\<rparr>)]\<rparr>"


section \<open>Notions used in the statements\<close>

text \<open>What a call returned, and the buffer of the session object at \<open>a\<close> after it.\<close>

definition returned :: "((error + string) \<times> state) option \<Rightarrow> (error + string) option" where
  "returned res = map_option fst res"

definition bufferAfter :: "addr \<Rightarrow> ((error + string) \<times> state) option \<Rightarrow> string option" where
  "bufferAfter a res = map_option (\<lambda>r. buffer (heap (snd r) a)) res"

text \<open>
  What the data listener and the timer callback both do to a read: the timer is off
  and the promise is resolved with the buffer found in the store \<open>h\<close>.
\<close>

definition wake :: "(addr \<Rightarrow> ShellSession) \<Rightarrow> ReadTask \<Rightarrow> ReadTask" where
  "wake h t = resolve (buffer (h (t_session t))) (t\<lparr>t_timer := False\<rparr>)"

text \<open>
  Two entries of the credential store agree on everything that is not a secret: the id,
  host, port, user name, the two time stamps, and on whether a password and a private
  key path are present (truthy). The values of the password, of the key path and of the
  passphrase are free.
\<close>

definition sameButSecrets :: "string \<times> StoredCredential \<Rightarrow> string \<times> StoredCredential \<Rightarrow> bool" where
  "sameButSecrets e f =
     (fst e = fst f \<and> host (snd e) = host (snd f) \<and> port (snd e) = port (snd f)
      \<and> username (snd e) = username (snd f)
      \<and> createdAt (snd e) = createdAt (snd f) \<and> lastUsed (snd e) = lastUsed (snd f)
      \<and> truthy (password (snd e)) = truthy (password (snd f))
      \<and> truthy (privateKeyPath (snd e)) = truthy (privateKeyPath (snd f)))"


section \<open>The example run\<close>

lemmas demo_defs =
  demoConnect_def demoSave_def demoStart_def connected_def saved_def started_def
  initial_def quietEnv_def handleSSHConnect_def handleSaveCredential_def
  handleStartInteractiveShell_def connectConfig_def truthy_def blankSession_def

lemma started_pool: "connectionPool started ''c'' \<noteq> None"
  by (simp add: demo_defs)

lemma started_sess: "shellSessions started ''s'' = Some 0"
  by (simp add: demo_defs)

lemma started_cred: "map_of (credentialStore started) ''k'' \<noteq> None"
  by (simp add: demo_defs)

lemma started_heap:
  "heap started 0 =
     \<lparr>shell = \<lparr>written = [], closeRequested = False\<rparr>,
      ssh = \<lparr>ssh_config = \<lparr>cfg_host = ''h'', cfg_port = 22, cfg_username = ''u'',
                            cfg_privateKey = None, cfg_passphrase = None,
                            cfg_password = Some ''p''\<rparr>\<rparr>,
      emitter = [], buffer = [], isActive = True\<rparr>"
  by (simp add: demo_defs)

lemma started_tasks: "nextTask started = 0"
  by (simp add: demo_defs)

section \<open>Creating an id twice\<close>

text \<open>
  C1 (as amended). Each create handler checks its map before anything is changed. For
  every state in which the id is already registered: \<^verbatim>\<open>handleSSHConnect\<close> and
  \<^verbatim>\<open>handleConnectWithCredential\<close> throw the error "Connection ID ... already exists",
  \<^verbatim>\<open>handleSaveCredential\<close> throws "Credential ID ... already exists", and
  \<^verbatim>\<open>handleStartInteractiveShell\<close> throws "Session ID ... already exists" when the
  connection named in the call is registered, and "Connection ID ... not found" when it is
  not, because the connection is looked up first. In every case the state is returned as
  it was. (The source has one error code, \<^verbatim>\<open>InvalidParams\<close>, for all of these; the
  kinds differ by their message.)
\<close>

theorem create_twice_rejected:
  "(connectionPool st (c_connectionId cp) \<noteq> None \<longrightarrow>
      handleSSHConnect E cp st =
        (Inl (McpError InvalidParams
               (''Connection ID '' @ quoted (c_connectionId cp) @ '' already exists'')), st))
   \<and> (connectionPool st connId \<noteq> None \<longrightarrow>
      handleConnectWithCredential E credId connId st =
        (Inl (McpError InvalidParams
               (''Connection ID '' @ quoted connId @ '' already exists'')), st))
   \<and> (map_of (credentialStore st) (s_credentialId sp) \<noteq> None \<longrightarrow>
      handleSaveCredential E sp st =
        (Inl (McpError InvalidParams
               (''Credential ID '' @ quoted (s_credentialId sp) @ '' already exists'')), st))
   \<and> (shellSessions st (i_sessionId ip) \<noteq> None \<longrightarrow>
      handleStartInteractiveShell E ip st =
        (if connectionPool st (i_connectionId ip) = None
         then (Inl (McpError InvalidParams
                     (''Connection ID '' @ quoted (i_connectionId ip) @ '' not found'')), st)
         else (Inl (McpError InvalidParams
                     (''Session ID '' @ quoted (i_sessionId ip) @ '' already exists'')), st)))"
  by (auto simp: handleSSHConnect_def handleConnectWithCredential_def handleSaveCredential_def
        handleStartInteractiveShell_def split: option.splits)

text \<open>
  The theorem at the example run: after the three creates, each of them is rejected when
  repeated, and the state stays \<open>started\<close>.
\<close>

theorem create_twice_rejected_witness:
  "connectionPool started (c_connectionId demoConnect) \<noteq> None
   \<and> handleSSHConnect quietEnv demoConnect started =
        (Inl (McpError InvalidParams
               (''Connection ID '' @ quoted ''c'' @ '' already exists'')), started)
   \<and> handleConnectWithCredential quietEnv ''k'' ''c'' started =
        (Inl (McpError InvalidParams
               (''Connection ID '' @ quoted ''c'' @ '' already exists'')), started)
   \<and> map_of (credentialStore started) (s_credentialId demoSave) \<noteq> None
   \<and> handleSaveCredential quietEnv demoSave started =
        (Inl (McpError InvalidParams
               (''Credential ID '' @ quoted ''k'' @ '' already exists'')), started)
   \<and> shellSessions started (i_sessionId demoStart) \<noteq> None
   \<and> handleStartInteractiveShell quietEnv demoStart started =
        (Inl (McpError InvalidParams
               (''Session ID '' @ quoted ''s'' @ '' already exists'')), started)"
  using create_twice_rejected [of started demoConnect quietEnv "''c''" "''k''" demoSave demoStart]
    started_pool started_sess started_cred
  by (simp add: demoConnect_def demoSave_def demoStart_def)

text \<open>
  C1 as written fails for sessions: session \<open>''s''\<close> is registered, and a second
  start of \<open>''s''\<close> that names the unregistered connection \<open>''d''\<close> is answered with the
  error for the connection, not with the one for the duplicate session id.
\<close>

theorem start_twice_counterexample:
  "shellSessions started ''s'' \<noteq> None
   \<and> fst (handleStartInteractiveShell quietEnv (demoStart\<lparr>i_connectionId := ''d''\<rparr>) started)
       = Inl (McpError InvalidParams (''Connection ID '' @ quoted ''d'' @ '' not found''))
   \<and> fst (handleStartInteractiveShell quietEnv (demoStart\<lparr>i_connectionId := ''d''\<rparr>) started)
       \<noteq> Inl (McpError InvalidParams (''Session ID '' @ quoted ''s'' @ '' already exists''))"
  by (simp add: demo_defs)

section \<open>Authentication material on connect\<close>

lemma connectConfig_neither:
  "\<not> truthy keyPath \<Longrightarrow> \<not> truthy pw \<Longrightarrow>
     connectConfig E h p u keyPath phrase pw missing = Inl (McpError InvalidParams missing)"
  by (simp add: connectConfig_def)

lemma connectConfig_key_first:
  "truthy keyPath \<Longrightarrow>
     connectConfig E h p u keyPath phrase pw missing
       = connectConfig E h p u keyPath phrase pw' missing"
  by (cases keyPath) (simp_all add: connectConfig_def truthy_def)

lemma connect_neither_fails:
  "\<not> truthy (c_password p) \<Longrightarrow> \<not> truthy (c_privateKeyPath p) \<Longrightarrow>
     \<exists>e. handleSSHConnect E p st = (Inl e, st)"
  by (simp add: handleSSHConnect_def connectConfig_neither)

lemma connect_key_first:
  assumes "truthy (c_privateKeyPath p)"
  shows "handleSSHConnect E p st = handleSSHConnect E (p\<lparr>c_password := pw\<rparr>) st"
proof -
  have "connectConfig E (c_host p) (c_port p) (c_username p) (c_privateKeyPath p)
          (c_passphrase p) (c_password p) ''Either password or privateKeyPath must be provided''
        = connectConfig E (c_host p) (c_port p) (c_username p) (c_privateKeyPath p)
          (c_passphrase p) pw ''Either password or privateKeyPath must be provided''"
    using assms by (rule connectConfig_key_first)
  then show ?thesis
    by (simp add: handleSSHConnect_def cong: sum.case_cong option.case_cong)
qed

lemma connect_transport_error:
  "connectionPool st (c_connectionId p) = None \<Longrightarrow>
   connectConfig E (c_host p) (c_port p) (c_username p) (c_privateKeyPath p)
     (c_passphrase p) (c_password p) ''Either password or privateKeyPath must be provided''
     = Inr cfg \<Longrightarrow>
   ssh_connect E cfg = Some m \<Longrightarrow>
     handleSSHConnect E p st
       = (Inl (McpError InternalError (''SSH connection failed: '' @ m)), st)"
  by (simp add: handleSSHConnect_def)

text \<open>
  C4 as written fails: a call with both a password and a private key path is not
  rejected. With collaborators that do not fail, the connection is opened from the key
  and it is registered.
\<close>

theorem both_methods_counterexample:
  "fst (handleSSHConnect quietEnv (demoConnect\<lparr>c_privateKeyPath := Some ''/id_rsa''\<rparr>) initial)
     = Inr ''Successfully connected to h:22 as u (Connection ID: c)''
   \<and> connectionPool (snd (handleSSHConnect quietEnv
         (demoConnect\<lparr>c_privateKeyPath := Some ''/id_rsa''\<rparr>) initial)) ''c''
     = Some \<lparr>ssh_config = \<lparr>cfg_host = ''h'', cfg_port = 22, cfg_username = ''u'',
          cfg_privateKey = Some ''KEY'', cfg_passphrase = None, cfg_password = None\<rparr>\<rparr>"
  by (simp add: demo_defs show_int_def show_nat.simps digit_def)

text \<open>
  C4 (as amended). A connect with neither a password nor a private key path fails and
  returns the state as it was. A connect with a private key path uses the key whatever
  the password parameter is: the call gives the same result and state with any other
  password, absent included, so supplying both is the same as supplying the key alone.
  An error thrown by \<^verbatim>\<open>ssh.connect\<close> is reported as \<^verbatim>\<open>InternalError\<close> with the text
  "SSH connection failed: " before its message, and the state is returned as it was.
\<close>

theorem connect_authentication:
  "(\<not> truthy (c_password p) \<and> \<not> truthy (c_privateKeyPath p) \<longrightarrow>
      (\<exists>e. handleSSHConnect E p st = (Inl e, st)))
   \<and> (truthy (c_privateKeyPath q) \<longrightarrow>
      handleSSHConnect E q st = handleSSHConnect E (q\<lparr>c_password := pw\<rparr>) st)
   \<and> (connectionPool st' (c_connectionId r) = None
        \<and> connectConfig E' (c_host r) (c_port r) (c_username r) (c_privateKeyPath r)
             (c_passphrase r) (c_password r) ''Either password or privateKeyPath must be provided''
           = Inr cfg
        \<and> ssh_connect E' cfg = Some m \<longrightarrow>
      handleSSHConnect E' r st'
        = (Inl (McpError InternalError (''SSH connection failed: '' @ m)), st'))"
  using connect_neither_fails [of p E st] connect_key_first [of q E st pw]
    connect_transport_error [of st' r E' cfg m]
  by blast

text \<open>
  The theorem at concrete calls: no authentication at all; key and password together;
  a password connect whose transport refuses.
\<close>

theorem connect_authentication_witness:
  "\<not> truthy (c_password (demoConnect\<lparr>c_password := None\<rparr>))
   \<and> \<not> truthy (c_privateKeyPath (demoConnect\<lparr>c_password := None\<rparr>))
   \<and> (\<exists>e. handleSSHConnect quietEnv (demoConnect\<lparr>c_password := None\<rparr>) initial
            = (Inl e, initial))
   \<and> truthy (c_privateKeyPath (demoConnect\<lparr>c_privateKeyPath := Some ''/id_rsa''\<rparr>))
   \<and> handleSSHConnect quietEnv (demoConnect\<lparr>c_privateKeyPath := Some ''/id_rsa''\<rparr>) initial
       = handleSSHConnect quietEnv
           (demoConnect\<lparr>c_privateKeyPath := Some ''/id_rsa'', c_password := None\<rparr>) initial
   \<and> connectionPool initial (c_connectionId demoConnect) = None
   \<and> ssh_connect failingConnect
        \<lparr>cfg_host = ''h'', cfg_port = 22, cfg_username = ''u'', cfg_privateKey = None,
         cfg_passphrase = None, cfg_password = Some ''p''\<rparr> = Some ''ECONNREFUSED''
   \<and> handleSSHConnect failingConnect demoConnect initial
       = (Inl (McpError InternalError ''SSH connection failed: ECONNREFUSED''), initial)"
  using connect_authentication
    [of "demoConnect\<lparr>c_password := None\<rparr>" quietEnv initial
        "demoConnect\<lparr>c_privateKeyPath := Some ''/id_rsa''\<rparr>" None
        initial demoConnect failingConnect
        "\<lparr>cfg_host = ''h'', cfg_port = 22, cfg_username = ''u'', cfg_privateKey = None,
          cfg_passphrase = None, cfg_password = Some ''p''\<rparr>" "''ECONNREFUSED''"]
  by (simp add: demoConnect_def truthy_def initial_def failingConnect_def quietEnv_def
        connectConfig_def)

section \<open>Disconnect when the release fails\<close>

text \<open>
  C5. \<^verbatim>\<open>handleSSHDisconnect\<close> calls \<^verbatim>\<open>ssh.dispose()\<close> with no \<^verbatim>\<open>try\<close> around it and
  before the entry is deleted. With a \<^verbatim>\<open>dispose\<close> that throws, the error leaves the
  handler, the dispatcher reports it as \<^verbatim>\<open>InternalError\<close>, and connection \<open>''c''\<close> is
  still registered: the state is the one before the call.
\<close>

theorem disconnect_dispose_throws:
  "connectionPool connected ''c'' \<noteq> None
   \<and> handleSSHDisconnect failingDispose ''c'' connected
       = (Inl (Error ''dispose failed''), connected)
   \<and> callToolCatch (handleSSHDisconnect failingDispose ''c'' connected)
       = (Inl (McpError InternalError ''Tool execution failed: dispose failed''), connected)"
  by (simp add: failingDispose_def handleSSHDisconnect_def callToolCatch_def demo_defs)

text \<open>
  In general: an error of \<^verbatim>\<open>dispose\<close> leaves the handler as it is and the state is
  untouched; when \<^verbatim>\<open>dispose\<close> returns, the entry is removed from both maps.
\<close>

lemma disconnect_propagates:
  "connectionPool st connectionId = Some handle \<Longrightarrow> ssh_dispose E handle = Some m \<Longrightarrow>
     handleSSHDisconnect E connectionId st = (Inl (Error m), st)"
  by (simp add: handleSSHDisconnect_def)

lemma disconnect_removes:
  "connectionPool st connectionId = Some handle \<Longrightarrow> ssh_dispose E handle = None \<Longrightarrow>
     handleSSHDisconnect E connectionId st
       = (Inr (''Disconnected from '' @ connectionId),
          st\<lparr>connectionPool := (connectionPool st)(connectionId := None),
             connectionContexts := (connectionContexts st)(connectionId := None)\<rparr>)"
  by (simp add: handleSSHDisconnect_def)

section \<open>Events and suspended reads\<close>

lemma started_clock: "clock started = 0"
  by (simp add: demo_defs)

lemma wake_idem: "wake h (wake h t) = wake h t"
  by (simp add: wake_def resolve_def split: option.splits)

lemma map_wake_idem: "map_option (wake h) (map_option (wake h) x) = map_option (wake h) x"
  by (cases x) (simp_all add: wake_idem)

lemma wake_fields:
  "t_session (wake h t) = t_session t"
  "t_sessionId (wake h t) = t_sessionId t"
  "t_clearBuffer (wake h t) = t_clearBuffer t"
  "t_due (wake h t) = t_due t"
  "t_timer (wake h t) = False"
  "t_promise (wake h t)
     = Some (case t_promise t of None \<Rightarrow> buffer (h (t_session t)) | Some v \<Rightarrow> v)"
  by (simp_all add: wake_def resolve_def split: option.splits)

lemma dataListener_wake:
  "dataListener q s
     = (case tasks s q of None \<Rightarrow> s | Some t \<Rightarrow> s\<lparr>tasks := (tasks s)(q \<mapsto> wake (heap s) t)\<rparr>)"
  by (simp add: dataListener_def wake_def split: option.splits)

lemma timerFires_wake:
  "timerFires r st
     = (case tasks st r of
          None \<Rightarrow> st
        | Some t \<Rightarrow>
            if t_timer t \<and> t_due t \<le> clock st
            then st\<lparr>tasks := (tasks st)(r \<mapsto> wake (heap st) t)\<rparr> else st)"
  by (simp add: timerFires_def wake_def split: option.splits)

text \<open>The listeners change the reads only; the session objects and the map stay.\<close>

lemma heap_dataListener: "heap (dataListener q s) = heap s"
  by (simp add: dataListener_def split: option.splits)

lemma heap_fold_dataListener: "heap (fold dataListener qs s) = heap s"
  by (induction qs arbitrary: s) (simp_all add: heap_dataListener)

lemma shellSessions_dataListener: "shellSessions (dataListener q s) = shellSessions s"
  by (simp add: dataListener_def split: option.splits)

lemma shellSessions_fold_dataListener: "shellSessions (fold dataListener qs s) = shellSessions s"
  by (induction qs arbitrary: s) (simp_all add: shellSessions_dataListener)

lemma tasks_dataListener:
  "tasks (dataListener q s) r
     = (if r = q then map_option (wake (heap s)) (tasks s r) else tasks s r)"
  by (simp add: dataListener_wake split: option.splits)

text \<open>
  Emitting \<^verbatim>\<open>'data'\<close>: exactly the reads that listen are woken, each with the buffer of
  its session; running a listener twice is the same as running it once.
\<close>

lemma tasks_fold_dataListener:
  "tasks (fold dataListener qs s) r
     = (if r \<in> set qs then map_option (wake (heap s)) (tasks s r) else tasks s r)"
proof (induction qs arbitrary: s)
  case Nil
  then show ?case by simp
next
  case (Cons q qs)
  show ?case
    by (auto simp: Cons.IH heap_dataListener tasks_dataListener map_wake_idem)
qed

lemma heap_shell_on_data:
  "heap (shell_on_data a text st)
     = (heap st)(a := (heap st a)\<lparr>buffer := buffer (heap st a) @ text, emitter := []\<rparr>)"
  by (simp add: shell_on_data_def Let_def heap_fold_dataListener)

lemma shellSessions_shell_on_data: "shellSessions (shell_on_data a text st) = shellSessions st"
  by (simp add: shell_on_data_def Let_def shellSessions_fold_dataListener)

lemma tasks_shell_on_data:
  "tasks (shell_on_data a text st) r
     = (if r \<in> set (emitter (heap st a))
        then map_option
               (wake ((heap st)(a := (heap st a)\<lparr>buffer := buffer (heap st a) @ text,
                                                  emitter := []\<rparr>)))
               (tasks st r)
        else tasks st r)"
  by (simp add: shell_on_data_def Let_def tasks_fold_dataListener)


lemma shellSessions_deliver: "shellSessions (deliver ev s) = shellSessions s"
  by (cases ev)
     (simp_all add: shellSessions_shell_on_data shell_on_close_def timerFires_def
        split: option.splits)

lemma shellSessions_run: "shellSessions (run evs s) = shellSessions s"
  unfolding run_def by (induction evs arbitrary: s) (simp_all add: shellSessions_deliver)

lemma buffer_run_data:
  "buffer (heap (run (map (ShellData a) texts) st) a) = buffer (heap st a) @ concat texts"
  unfolding run_def by (induction texts arbitrary: st) (simp_all add: heap_shell_on_data)







lemmas read_defs =
  returned_def bufferAfter_def handleReadOutput_def handleReadOutput_start_def
  handleReadOutput_resume_def run_def

lemmas text_defs = outputText_def quoted_def newline_def

lemma start_empty:
  "shellSessions st sid = Some a \<Longrightarrow> buffer (heap st a) = [] \<Longrightarrow>
   handleReadOutput_start sid ms cb st =
     (Inr (nextTask st),
      st\<lparr>tasks := (tasks st)(nextTask st \<mapsto>
             \<lparr>t_session = a, t_sessionId = sid, t_timeout = ms,
              t_clearBuffer = cb, t_timer = True,
              t_due = clock st + timerDelay ms, t_promise = None\<rparr>),
         heap := (heap st)(a := (heap st a)\<lparr>emitter := emitter (heap st a) @ [nextTask st]\<rparr>),
         nextTask := Suc (nextTask st)\<rparr>)"
  by (simp add: handleReadOutput_start_def)

lemma start_nonempty:
  "shellSessions st sid = Some a \<Longrightarrow> buffer (heap st a) \<noteq> [] \<Longrightarrow>
   handleReadOutput_start sid ms cb st =
     (Inr (nextTask st),
      st\<lparr>tasks := (tasks st)(nextTask st \<mapsto>
             \<lparr>t_session = a, t_sessionId = sid, t_timeout = ms,
              t_clearBuffer = cb, t_timer = False,
              t_due = clock st + timerDelay ms, t_promise = Some (buffer (heap st a))\<rparr>),
         nextTask := Suc (nextTask st)\<rparr>)"
  by (simp add: handleReadOutput_start_def)

text \<open>
  A read during which no data arrives and whose delay passes: it returns the buffer as
  it was at the call, at once when that is non-empty and otherwise when its timer fires
  (then the buffer is empty). It leaves the buffer as it was, or empty when
  \<^verbatim>\<open>clearBuffer\<close> is set.
\<close>

lemma read_quiet:
  assumes "shellSessions st sid = Some a" and "timerDelay ms \<le> int d"
  shows "\<exists>st1. handleReadOutput sid ms cb [Elapse d, TimerFires (nextTask st)] st
                 = Some (Inr (outputText sid (buffer (heap st a))), st1)
             \<and> shellSessions st1 = shellSessions st
             \<and> buffer (heap st1 a) = (if cb then [] else buffer (heap st a))"
proof (cases "buffer (heap st a) = []")
  case True
  with assms show ?thesis
    by (simp add: handleReadOutput_def start_empty run_def timerFires_wake wake_fields
          handleReadOutput_resume_def)
next
  case False
  with assms show ?thesis
    by (simp add: handleReadOutput_def start_nonempty run_def timerFires_wake wake_fields
          handleReadOutput_resume_def)
qed

lemma timerDelay_nat: "timerDelay ms \<le> int (nat (timerDelay ms))"
  by (simp add: timerDelay_def)


section \<open>Reading the output of a session\<close>

lemma withOutput_sess: "shellSessions withOutput ''s'' = Some 0"
  by (simp add: withOutput_def shellSessions_run started_sess)

lemma withOutput_buffer: "buffer (heap withOutput 0) = ''bye''"
  by (simp add: withOutput_def run_def heap_shell_on_data started_heap)

lemma withOutput_tasks: "nextTask withOutput = 0"
  by (simp add: withOutput_def run_def shell_on_data_def started_heap started_tasks)




lemma read_immediate:
  assumes "shellSessions st sid = Some a" and "buffer (heap st a) \<noteq> []"
  shows "returned (handleReadOutput sid ms cb [] st)
           = Some (Inr (outputText sid (buffer (heap st a))))"
  using assms
  by (simp add: returned_def handleReadOutput_def start_nonempty run_def
        handleReadOutput_resume_def)








section \<open>A session whose channel has closed\<close>

lemma send_inactive:
  "shellSessions st sid = Some a \<Longrightarrow> \<not> isActive (heap st a) \<Longrightarrow>
     handleSendInput E sid input typing st
       = (Inl (McpError InvalidParams (''Session '' @ quoted sid @ '' is not active'')), st)"
  by (simp add: handleSendInput_def)

text \<open>
  C7. After the close hook has run on the object of a registered session, the session
  is still registered, and it stays so whatever events follow; sending input fails with
  "Session ... is not active" and changes nothing; a read succeeds: it returns the text
  \<^verbatim>\<open>Output from session '<id>':\<close>, a newline and the whole buffer, at once when the
  buffer is non-empty and else when its timer fires, and with \<^verbatim>\<open>clearBuffer\<close> it leaves
  the buffer empty; the explicit close, when \<^verbatim>\<open>shell.close()\<close> returns, removes the
  entry.
\<close>

theorem closed_channel_session:
  assumes "shellSessions st sid = Some a"
  shows "shellSessions (run evs (shell_on_close a st)) sid = Some a
       \<and> handleSendInput E sid input typing (shell_on_close a st)
           = (Inl (McpError InvalidParams
                    (''Session '' @ [CHR 0x27] @ sid @ [CHR 0x27] @ '' is not active'')),
              shell_on_close a st)
       \<and> returned (handleReadOutput sid ms cb [] (shell_on_close a st))
           = (if buffer (heap st a) \<noteq> []
              then Some (Inr (''Output from session '' @ [CHR 0x27] @ sid @ [CHR 0x27] @ '':''
                              @ [CHR 0x0A] @ buffer (heap st a)))
              else None)
       \<and> returned (handleReadOutput sid ms cb
                     [Elapse (nat (timerDelay ms)), TimerFires (nextTask st)]
                     (shell_on_close a st))
           = Some (Inr (''Output from session '' @ [CHR 0x27] @ sid @ [CHR 0x27] @ '':''
                        @ [CHR 0x0A] @ buffer (heap st a)))
       \<and> bufferAfter a
           (handleReadOutput sid ms True
              [Elapse (nat (timerDelay ms)), TimerFires (nextTask st)] (shell_on_close a st))
           = Some []
       \<and> bufferAfter a
           (handleReadOutput sid ms False
              [Elapse (nat (timerDelay ms)), TimerFires (nextTask st)] (shell_on_close a st))
           = Some (buffer (heap st a))
       \<and> (shell_close E (shell (heap st a)) = None \<longrightarrow>
            shellSessions (snd (handleCloseInteractiveShell E sid (shell_on_close a st))) sid
              = None)"
proof -
  let ?st = "shell_on_close a st"
  have reg: "shellSessions ?st sid = Some a" and nt: "nextTask ?st = nextTask st"
    and buf: "buffer (heap ?st a) = buffer (heap st a)" and act: "\<not> isActive (heap ?st a)"
    and sh: "shell (heap ?st a) = shell (heap st a)"
    using assms by (simp_all add: shell_on_close_def)
  have stays: "shellSessions (run evs ?st) sid = Some a"
    using reg by (simp add: shellSessions_run)
  have send: "handleSendInput E sid input typing ?st
           = (Inl (McpError InvalidParams
                    (''Session '' @ [CHR 0x27] @ sid @ [CHR 0x27] @ '' is not active'')), ?st)"
    using send_inactive [OF reg act, of E input typing] by (simp add: quoted_def)
  have atonce: "returned (handleReadOutput sid ms cb [] ?st)
           = (if buffer (heap st a) \<noteq> []
              then Some (Inr (''Output from session '' @ [CHR 0x27] @ sid @ [CHR 0x27] @ '':''
                              @ [CHR 0x0A] @ buffer (heap st a)))
              else None)"
  proof (cases "buffer (heap st a) = []")
    case True
    with reg buf show ?thesis
      by (simp add: returned_def handleReadOutput_def start_empty run_def
            handleReadOutput_resume_def)
  next
    case False
    with read_immediate [OF reg, of ms cb] buf show ?thesis
      by (simp add: text_defs)
  qed
  have reads: "returned (handleReadOutput sid ms cb
                     [Elapse (nat (timerDelay ms)), TimerFires (nextTask st)] ?st)
           = Some (Inr (''Output from session '' @ [CHR 0x27] @ sid @ [CHR 0x27] @ '':''
                        @ [CHR 0x0A] @ buffer (heap st a)))"
    using read_quiet [OF reg timerDelay_nat, of ms cb]
    by (auto simp: returned_def nt buf text_defs)
  have drains: "bufferAfter a (handleReadOutput sid ms True
              [Elapse (nat (timerDelay ms)), TimerFires (nextTask st)] ?st) = Some []"
    using read_quiet [OF reg timerDelay_nat, of ms True] by (auto simp: bufferAfter_def nt)
  have keeps: "bufferAfter a (handleReadOutput sid ms False
              [Elapse (nat (timerDelay ms)), TimerFires (nextTask st)] ?st)
           = Some (buffer (heap st a))"
    using read_quiet [OF reg timerDelay_nat, of ms False]
    by (auto simp: bufferAfter_def nt buf)
  have closes: "shell_close E (shell (heap st a)) = None \<longrightarrow>
            shellSessions (snd (handleCloseInteractiveShell E sid ?st)) sid = None"
    using reg by (simp add: handleCloseInteractiveShell_def sh)
  from stays send atonce reads drains keeps closes show ?thesis by blast
qed

text \<open>
  The theorem on session \<open>''s''\<close> with \<open>''bye''\<close> in its buffer when the channel
  closes; one more data event is delivered after the close.
\<close>

theorem closed_channel_session_witness:
  "shellSessions withOutput ''s'' = Some 0
   \<and> shellSessions (run [ShellData 0 ''x''] (shell_on_close 0 withOutput)) ''s'' = Some 0
   \<and> handleSendInput quietEnv ''s'' ''ls'' False (shell_on_close 0 withOutput)
       = (Inl (McpError InvalidParams
                (''Session '' @ [CHR 0x27] @ ''s'' @ [CHR 0x27] @ '' is not active'')),
          shell_on_close 0 withOutput)
   \<and> returned (handleReadOutput ''s'' 5000 True [] (shell_on_close 0 withOutput))
       = Some (Inr (''Output from session '' @ [CHR 0x27] @ ''s'' @ [CHR 0x27] @ '':''
                    @ [CHR 0x0A] @ ''bye''))
   \<and> returned (handleReadOutput ''s'' 5000 True [Elapse 5000, TimerFires 0]
                 (shell_on_close 0 withOutput))
       = Some (Inr (''Output from session '' @ [CHR 0x27] @ ''s'' @ [CHR 0x27] @ '':''
                    @ [CHR 0x0A] @ ''bye''))
   \<and> bufferAfter 0 (handleReadOutput ''s'' 5000 True [Elapse 5000, TimerFires 0]
                      (shell_on_close 0 withOutput))
       = Some []
   \<and> bufferAfter 0 (handleReadOutput ''s'' 5000 False [Elapse 5000, TimerFires 0]
                      (shell_on_close 0 withOutput))
       = Some ''bye''
   \<and> shell_close quietEnv (shell (heap withOutput 0)) = None
   \<and> shellSessions (snd (handleCloseInteractiveShell quietEnv ''s''
         (shell_on_close 0 withOutput))) ''s'' = None"
  using closed_channel_session
    [of withOutput "''s''" 0 "[ShellData 0 ''x'']" quietEnv "''ls''" False 5000 True]
    withOutput_sess withOutput_buffer withOutput_tasks
  by (simp add: quietEnv_def timerDelay_def)

text \<open>
  The close hook resolves no promise: a read that is suspended on an empty buffer has
  not returned after the close, whatever time has passed, as long as its timer callback
  has not run; it returns the empty string when the timer fires after its delay.
\<close>

lemma close_keeps_suspended:
  assumes "shellSessions st sid = Some a" "buffer (heap st a) = []"
  shows "handleReadOutput sid ms cb [ShellClose a, Elapse d] st = None"
    and "returned (handleReadOutput sid ms cb
                     [ShellClose a, Elapse d, TimerFires (nextTask st)] st)
           = (if timerDelay ms \<le> int d then Some (Inr (outputText sid [])) else None)"
  using assms
  by (simp_all add: read_defs shell_on_close_def timerFires_wake wake_fields)

text \<open>
  C6. Session \<open>''s''\<close> has an empty buffer and a read with a timeout of 5000 ms is
  suspended on it. When the channel closes, the hook lowers \<open>isActive\<close>, but the read
  has not returned: its promise is resolved by the \<^verbatim>\<open>once('data')\<close> listener or by the
  timer only, and the \<^verbatim>\<open>'close'\<close> that the hook emits has no listener. After 4999 ms
  the read is still suspended; it returns, with the empty string, when its timer fires
  after the full 5000 ms.
\<close>

theorem close_does_not_wake:
  "handleReadOutput ''s'' 5000 True [ShellClose 0] started = None
   \<and> isActive (heap (run [ShellClose 0] (snd (handleReadOutput_start ''s'' 5000 True started))) 0)
       = False
   \<and> handleReadOutput ''s'' 5000 True [ShellClose 0, Elapse 4999, TimerFires 0] started = None
   \<and> returned (handleReadOutput ''s'' 5000 True [ShellClose 0, Elapse 5000, TimerFires 0] started)
       = Some (Inr (''Output from session '' @ [CHR 0x27] @ ''s'' @ [CHR 0x27] @ '':''
                    @ [CHR 0x0A]))"
  by (simp add: read_defs text_defs started_sess started_heap started_tasks started_clock
        shell_on_close_def timerFires_def resolve_def timerDelay_def)

section \<open>Data between the capture and the clear\<close>

text \<open>
  In sequential use the read is exact: after data events with the texts \<open>texts\<close> and no
  read in between, a read with \<^verbatim>\<open>clearBuffer\<close> returns all of the buffer, leaves it
  empty, and the next read with no new data returns the empty string on its timer.
\<close>

lemma read_after_data:
  assumes "shellSessions st sid = Some a"
  shows "\<exists>st1 st2.
           handleReadOutput sid ms True
               [Elapse (nat (timerDelay ms)),
                TimerFires (nextTask (run (map (ShellData a) texts) st))]
               (run (map (ShellData a) texts) st)
             = Some (Inr (outputText sid (buffer (heap st a) @ concat texts)), st1)
         \<and> buffer (heap st1 a) = []
         \<and> handleReadOutput sid ms' cb
               [Elapse (nat (timerDelay ms')), TimerFires (nextTask st1)] st1
             = Some (Inr (outputText sid []), st2)"
proof -
  let ?st = "run (map (ShellData a) texts) st"
  have reg: "shellSessions ?st sid = Some a"
    using assms by (simp add: shellSessions_run)
  obtain st1 where first: "handleReadOutput sid ms True
                 [Elapse (nat (timerDelay ms)), TimerFires (nextTask ?st)] ?st
                 = Some (Inr (outputText sid (buffer (heap ?st a))), st1)"
     and reg1: "shellSessions st1 = shellSessions ?st"
     and cleared: "buffer (heap st1 a) = []"
    using read_quiet [OF reg timerDelay_nat, of ms True] by auto
  from reg1 reg have "shellSessions st1 sid = Some a" by simp
  from read_quiet [OF this timerDelay_nat, of ms' cb] cleared
  obtain st2 where "handleReadOutput sid ms' cb
                 [Elapse (nat (timerDelay ms')), TimerFires (nextTask st1)] st1
                 = Some (Inr (outputText sid []), st2)"
    by auto
  with first cleared show ?thesis
    by (auto simp: buffer_run_data)
qed

text \<open>
  Data that arrives after the promise is resolved and before the continuation runs: the
  read returns what the first event left in the buffer, and the continuation empties the
  buffer with the later text in it.
\<close>

lemma data_after_capture:
  assumes "shellSessions st sid = Some a" "buffer (heap st a) = []"
  shows "returned (handleReadOutput sid ms True [ShellData a t1, ShellData a t2] st)
           = Some (Inr (outputText sid t1))"
    and "bufferAfter a (handleReadOutput sid ms True [ShellData a t1, ShellData a t2] st)
           = Some []"
  using assms
  by (simp_all add: read_defs tasks_shell_on_data heap_shell_on_data wake_fields)

text \<open>
  C2. The value returned is captured when the promise is resolved, and the buffer is
  emptied by the continuation of the \<^verbatim>\<open>await\<close>, which runs later. A read with
  \<^verbatim>\<open>clearBuffer\<close> is suspended on session \<open>''s''\<close>; the channel delivers \<open>''a''\<close> and then
  \<open>''b''\<close> before the continuation runs. The first event resolves the promise with
  \<open>''a''\<close>, the second appends \<open>''b''\<close> to the buffer, and the continuation returns
  \<open>''a''\<close> and empties the buffer: \<open>''b''\<close> is never returned by any read.
\<close>

theorem read_loses_data:
  "returned (handleReadOutput ''s'' 5000 True [ShellData 0 ''a'', ShellData 0 ''b''] started)
     = Some (Inr (''Output from session '' @ [CHR 0x27] @ ''s'' @ [CHR 0x27] @ '':''
                  @ [CHR 0x0A] @ ''a''))
   \<and> bufferAfter 0 (handleReadOutput ''s'' 5000 True [ShellData 0 ''a'', ShellData 0 ''b''] started)
     = Some []"
  by (simp add: read_defs text_defs started_sess started_heap started_tasks tasks_shell_on_data
        heap_shell_on_data wake_fields)

section \<open>Typing simulation\<close>

lemma writeChars_all:
  "(\<And>c s. shell_write E c s = None) \<Longrightarrow>
     writeChars E ch cs = (ch\<lparr>written := written ch @ map (\<lambda>c. [c]) cs\<rparr>, None)"
  by (induction cs arbitrary: ch) simp_all

lemma concat_singletons: "concat (map (\<lambda>c. [c]) cs) = cs"
  by (induction cs) simp_all

text \<open>
  C8. On an active session whose channel accepts the writes, sending an input with and
  without \<^verbatim>\<open>simulateTyping\<close> both succeed; with it the channel receives one write per
  character, in the order of the input, without it one write of the whole input; the
  characters written, concatenated, are the same.
\<close>

theorem typing_same_characters:
  assumes "shellSessions st sid = Some a" and "isActive (heap st a)"
    and "\<And>c s. shell_write E c s = None"
  shows "\<exists>t1 t2 st1 st2.
           handleSendInput E sid input True st = (Inr t1, st1)
         \<and> handleSendInput E sid input False st = (Inr t2, st2)
         \<and> written (shell (heap st1 a)) = written (shell (heap st a)) @ map (\<lambda>c. [c]) input
         \<and> written (shell (heap st2 a)) = written (shell (heap st a)) @ [input]
         \<and> concat (written (shell (heap st1 a))) = concat (written (shell (heap st2 a)))"
  using assms
  by (simp add: handleSendInput_def writeChars_all writeAll_def concat_singletons)

text \<open>The theorem for the input \<open>''ls''\<close> on session \<open>''s''\<close>.\<close>

theorem typing_same_characters_witness:
  "shellSessions started ''s'' = Some 0 \<and> isActive (heap started 0)
   \<and> (\<exists>t1 t2 st1 st2.
           handleSendInput quietEnv ''s'' ''ls'' True started = (Inr t1, st1)
         \<and> handleSendInput quietEnv ''s'' ''ls'' False started = (Inr t2, st2)
         \<and> written (shell (heap st1 0)) = [''l'', ''s'']
         \<and> written (shell (heap st2 0)) = [''ls'']
         \<and> concat (written (shell (heap st1 0))) = concat (written (shell (heap st2 0))))"
  using typing_same_characters [of started "''s''" 0 quietEnv "''ls''"]
  by (simp add: started_sess started_heap quietEnv_def)

section \<open>Listing credentials\<close>

lemma listed_same: "sameButSecrets e f \<Longrightarrow> listed e = listed f"
  by (cases e, cases f) (simp add: sameButSecrets_def listed_def)

lemma map_listed_same: "list_all2 sameButSecrets xs ys \<Longrightarrow> map listed xs = map listed ys"
  by (induction rule: list_all2_induct) (simp_all add: listed_same)

text \<open>
  C9. Two stores whose entries agree, one by one and in order, on everything but the
  values of the secrets give the same list of masked objects and the same text: the
  listing is a function of the ids, hosts, ports, user names, time stamps and the two
  presence flags, so no password, key path or passphrase can be read off it.
\<close>

theorem list_hides_secrets:
  assumes "list_all2 sameButSecrets (credentialStore st1) (credentialStore st2)"
  shows "map listed (credentialStore st1) = map listed (credentialStore st2)
       \<and> fst (handleListCredentials st1) = fst (handleListCredentials st2)"
  using map_listed_same [OF assms] by (simp add: handleListCredentials_def)

text \<open>The theorem on the two example stores, with the text they both list.\<close>

theorem list_hides_secrets_witness:
  "list_all2 sameButSecrets (credentialStore storeA) (credentialStore storeB)
   \<and> fst (handleListCredentials storeA) = fst (handleListCredentials storeB)
   \<and> fst (handleListCredentials storeA)
       = Inr (''Saved credentials:'' @ newline
              @ ''- k: u@h:22 (password) - Last used: 2024-01-01T00:00:00.000Z'' @ newline
              @ ''- j: v@g:2222 (key) - Last used: 2024-01-03T00:00:00.000Z'')"
  using list_hides_secrets [of storeA storeB]
  by (simp add: storeA_def storeB_def initial_def sameButSecrets_def truthy_def
        handleListCredentials_def listed_def credentialLine_def show_int_def show_nat.simps
        digit_def)

end
